theory Spec2Isabelle
  imports Complex_Main "HOL-Library.Sublist"
begin

section \<open>Python values, errors and string formatting\<close>

text \<open>
  The demos are Python. Strings are modelled as \<^typ>\<open>string\<close>, the exceptions a tool body
  can raise as values of \<open>py_error\<close>, and a computation that may raise as a sum whose
  left injection is the exception. The rows of the mock order table hold strings, floats
  and \<open>None\<close>; a float is modelled by the exact rational value of the IEEE double, which is
  all that the comparison \<open>price > 50\<close> and the format \<open>:.2f\<close> depend on.
\<close>

datatype py_error = KeyError | TypeError | ValueError | AttributeError

datatype pyval = PyNone | PyStr string | PyFloat rat

definition bind_err :: "('e + 'a) \<Rightarrow> ('a \<Rightarrow> 'e + 'b) \<Rightarrow> 'e + 'b" where
  "bind_err m f = (case m of Inl e \<Rightarrow> Inl e | Inr x \<Rightarrow> f x)"

definition digit_char :: "nat \<Rightarrow> char" where
  "digit_char d = ''0123456789'' ! d"

fun show_nat :: "nat \<Rightarrow> string" where
  "show_nat n = (if n < 10 then [digit_char n] else show_nat (n div 10) @ [digit_char (n mod 10)])"

declare show_nat.simps [simp del]

text \<open>Rounding to the nearest integer, ties to the even one, as Python's float formatting does
  on the exact value of the double.\<close>

definition round_half_even :: "rat \<Rightarrow> int" where
  "round_half_even x =
     (let f = \<lfloor>x\<rfloor>; d = x - of_int f
      in if d < 1 / 2 then f else if 1 / 2 < d then f + 1 else if even f then f else f + 1)"

text \<open>\<open>format(x, ".2f")\<close> of a finite float \<open>x\<close>.\<close>

definition fmt_2f :: "rat \<Rightarrow> string" where
  "fmt_2f x =
     (let n = nat (round_half_even (\<bar>x\<bar> * 100))
      in (if x < 0 then ''-'' else '''') @ show_nat (n div 100) @ ''.'' @
         [digit_char (n mod 100 div 10), digit_char (n mod 10)])"

text \<open>\<open>f"{v:.2f}"\<close> on a value of the table: a string has no format code \<open>f\<close> (ValueError),
  \<open>None\<close> accepts no format string at all (TypeError).\<close>

definition format_2f :: "pyval \<Rightarrow> py_error + string" where
  "format_2f v = (case v of PyFloat r \<Rightarrow> Inr (fmt_2f r) | PyStr s \<Rightarrow> Inl ValueError | PyNone \<Rightarrow> Inl TypeError)"

text \<open>\<open>v > 50\<close>: only a number compares with an integer.\<close>

definition gt_50 :: "pyval \<Rightarrow> py_error + bool" where
  "gt_50 v = (case v of PyFloat r \<Rightarrow> Inr (50 < r) | PyStr s \<Rightarrow> Inl TypeError | PyNone \<Rightarrow> Inl TypeError)"

text \<open>\<open>str.upper\<close> and \<open>str.lower\<close> on the ASCII letters; every other character is kept.\<close>

definition char_upper :: "char \<Rightarrow> char" where
  "char_upper c =
     (case map_of (zip ''abcdefghijklmnopqrstuvwxyz'' ''ABCDEFGHIJKLMNOPQRSTUVWXYZ'') c of
        None \<Rightarrow> c | Some u \<Rightarrow> u)"


definition upper :: "pyval \<Rightarrow> py_error + string" where
  "upper v = (case v of PyStr s \<Rightarrow> Inr (map char_upper s) | PyNone \<Rightarrow> Inl AttributeError
                | PyFloat r \<Rightarrow> Inl AttributeError)"


text \<open>\<open>f"{v}"\<close>: the string itself, \<open>None\<close>, or the \<open>repr\<close> of a float. The shortest
  round-trip \<open>repr\<close> of a float is a primitive of the language and is taken as the
  parameter \<open>float_repr\<close>.\<close>

definition py_str :: "(rat \<Rightarrow> string) \<Rightarrow> pyval \<Rightarrow> string" where
  "py_str float_repr v = (case v of PyNone \<Rightarrow> ''None'' | PyStr s \<Rightarrow> s | PyFloat r \<Rightarrow> float_repr r)"

text \<open>\<open>sep.join(xs)\<close>.\<close>

fun join :: "string \<Rightarrow> string list \<Rightarrow> string" where
  "join sep [] = []"
| "join sep [x] = x"
| "join sep (x # y # ys) = x @ sep @ join sep (y # ys)"

type_synonym pydict = "string \<rightharpoonup> pyval"

text \<open>\<open>d[k]\<close> raises KeyError on a missing key; \<open>d.get(k, default)\<close> does not.\<close>

definition getitem :: "pydict \<Rightarrow> string \<Rightarrow> py_error + pyval" where
  "getitem d k = (case d k of None \<Rightarrow> Inl KeyError | Some v \<Rightarrow> Inr v)"

definition dict_get :: "pydict \<Rightarrow> string \<Rightarrow> pyval \<Rightarrow> pyval" where
  "dict_get d k dflt = (case d k of None \<Rightarrow> dflt | Some v \<Rightarrow> v)"

section \<open>Customer service demo: configuration and models\<close>

text \<open>\<open>models.py\<close>: the context injected into every tool call, and the guardrail's schema.\<close>

record CustomerContext =
  customer_id :: string
  customer_name :: string
  is_premium :: bool

record AbuseCheck =
  is_abusive :: bool
  abuse_reason :: string

text \<open>
  \<open>config.py\<close>: the mock order table, a dict of dicts in insertion order, one definition
  per row. Its two dates are computed from the clock when the module is imported, so they
  are parameters here. The prices are the doubles that the literals \<open>79.99\<close>, \<open>19.99\<close> and
  \<open>12.99\<close> denote.
\<close>

definition ORD_001 :: "string \<Rightarrow> pydict" where
  "ORD_001 eta_date =
     [''customer_id'' \<mapsto> PyStr ''CUST-123'',
      ''item'' \<mapsto> PyStr ''Wireless Headphones'',
      ''price'' \<mapsto> PyFloat (5628795846771343 / 70368744177664),
      ''status'' \<mapsto> PyStr ''shipped'',
      ''tracking'' \<mapsto> PyStr ''1Z999AA10123456784'',
      ''eta'' \<mapsto> PyStr eta_date]"

definition ORD_002 :: "string \<Rightarrow> pydict" where
  "ORD_002 delivered_date =
     [''customer_id'' \<mapsto> PyStr ''CUST-123'',
      ''item'' \<mapsto> PyStr ''Phone Case'',
      ''price'' \<mapsto> PyFloat (5626684784446013 / 281474976710656),
      ''status'' \<mapsto> PyStr ''delivered'',
      ''tracking'' \<mapsto> PyStr ''1Z999AA10123456785'',
      ''delivered_date'' \<mapsto> PyStr delivered_date]"

definition ORD_003 :: pydict where
  "ORD_003 =
     [''customer_id'' \<mapsto> PyStr ''CUST-456'',
      ''item'' \<mapsto> PyStr ''USB Cable'',
      ''price'' \<mapsto> PyFloat (7312719894942843 / 562949953421312),
      ''status'' \<mapsto> PyStr ''processing'',
      ''tracking'' \<mapsto> PyNone,
      ''eta'' \<mapsto> PyStr ''Pending shipment'']"

definition ORDERS_DB :: "string \<Rightarrow> string \<Rightarrow> (string \<times> pydict) list" where
  "ORDERS_DB eta_date delivered_date =
     [(''ORD-001'', ORD_001 eta_date), (''ORD-002'', ORD_002 delivered_date), (''ORD-003'', ORD_003)]"

text \<open>\<open>get_customer_context\<close> applied to the two rows of \<open>CUSTOMERS_DB\<close>.\<close>

definition alice :: CustomerContext where
  "alice = \<lparr>customer_id = ''CUST-123'', customer_name = ''Alice Johnson'', is_premium = True\<rparr>"

definition bob :: CustomerContext where
  "bob = \<lparr>customer_id = ''CUST-456'', customer_name = ''Bob Smith'', is_premium = False\<rparr>"

text \<open>
  What a tool can read and could write: the module-level table and the context object it
  is handed. Every tool returns its result together with the world it leaves behind.
\<close>

record world =
  orders_db :: "(string \<times> pydict) list"
  wrapper_context :: CustomerContext

section \<open>Customer service demo: the tools of \<open>tools.py\<close>\<close>

definition lookup_order :: "(rat \<Rightarrow> string) \<Rightarrow> world \<Rightarrow> string \<Rightarrow> (py_error + string) \<times> world" where
  "lookup_order float_repr w order_id =
     (let ctx = wrapper_context w in
      (case map_of (orders_db w) order_id of
         None \<Rightarrow> Inr (''Order '' @ order_id @ '' not found.'')
       | Some order \<Rightarrow>
           bind_err (getitem order ''customer_id'') (\<lambda>cid.
           if cid \<noteq> PyStr (customer_id ctx)
           then Inr (''Order '' @ order_id @ '' does not belong to your account.'')
           else
             bind_err (getitem order ''item'') (\<lambda>item.
             bind_err (getitem order ''price'') (\<lambda>price.
             bind_err (format_2f price) (\<lambda>price_2f.
             bind_err (getitem order ''status'') (\<lambda>status.
             bind_err (upper status) (\<lambda>status_upper.
             Inr (''\<newline>Order '' @ order_id @ '':\<newline>'' @
                  ''- Item: '' @ py_str float_repr item @ ''\<newline>'' @
                  ''- Price: $'' @ price_2f @ ''\<newline>'' @
                  ''- Status: '' @ status_upper @ ''\<newline>'' @
                  ''- Tracking: '' @
                    py_str float_repr (dict_get order ''tracking'' (PyStr ''Not yet available'')) @
                    ''\<newline>'' @
                  ''- ETA: '' @
                    py_str float_repr
                      (dict_get order ''eta'' (dict_get order ''delivered_date'' (PyStr ''N/A''))) @
                    ''\<newline>''))))))),
      w))"

text \<open>The list comprehension of \<open>list_customer_orders\<close>, over the items in dict order.\<close>

fun customer_orders :: "(rat \<Rightarrow> string) \<Rightarrow> CustomerContext \<Rightarrow> (string \<times> pydict) list \<Rightarrow> py_error + string list" where
  "customer_orders float_repr ctx [] = Inr []"
| "customer_orders float_repr ctx ((oid, row) # rest) =
     bind_err (getitem row ''customer_id'') (\<lambda>cid.
     if cid = PyStr (customer_id ctx)
     then
       bind_err (getitem row ''item'') (\<lambda>item.
       bind_err (getitem row ''price'') (\<lambda>price.
       bind_err (format_2f price) (\<lambda>price_2f.
       bind_err (getitem row ''status'') (\<lambda>status.
       bind_err (customer_orders float_repr ctx rest) (\<lambda>lines.
       Inr ((''- '' @ oid @ '': '' @ py_str float_repr item @ '' ($'' @ price_2f @ '') - '' @
             py_str float_repr status) # lines))))))
     else customer_orders float_repr ctx rest)"

definition list_customer_orders :: "(rat \<Rightarrow> string) \<Rightarrow> world \<Rightarrow> (py_error + string) \<times> world" where
  "list_customer_orders float_repr w =
     (let ctx = wrapper_context w in
      (bind_err (customer_orders float_repr ctx (orders_db w)) (\<lambda>lines.
         if lines = [] then Inr ''No orders found for your account.''
         else Inr (''Your orders:\<newline>'' @ join ''\<newline>'' lines)),
       w))"

definition calculate_refund :: "world \<Rightarrow> string \<Rightarrow> string \<Rightarrow> (py_error + string) \<times> world" where
  "calculate_refund w order_id reason =
     (let ctx = wrapper_context w in
      (case map_of (orders_db w) order_id of
         None \<Rightarrow> Inr (''Order '' @ order_id @ '' not found.'')
       | Some order \<Rightarrow>
           bind_err (getitem order ''customer_id'') (\<lambda>cid.
           if cid \<noteq> PyStr (customer_id ctx)
           then Inr ''This order does not belong to your account.''
           else
             bind_err (getitem order ''price'') (\<lambda>price.
             bind_err (getitem order ''status'') (\<lambda>status.
             if status = PyStr ''processing''
             then bind_err (format_2f price) (\<lambda>price_2f.
                    Inr (''Order '' @ order_id @ '' can be cancelled for a full refund of $'' @
                         price_2f @ ''. Reason: '' @ reason))
             else if status = PyStr ''shipped''
             then
               (if is_premium ctx
                then bind_err (format_2f price) (\<lambda>price_2f.
                       Inr (''Premium customer: Eligible for full refund of $'' @ price_2f @
                            '' upon return. Reason: '' @ reason))
                else Inr (''Order in transit. Please wait for delivery to request refund. Reason: '' @
                          reason))
             else if status = PyStr ''delivered''
             then
               bind_err (gt_50 price) (\<lambda>requires_approval.
               let approval_note = (if requires_approval then '' (Requires manager approval)'' else '''')
               in bind_err (format_2f price) (\<lambda>price_2f.
                    Inr (''Refund eligible: $'' @ price_2f @ approval_note @ ''. Reason: '' @ reason)))
             else Inr (''Unable to process refund for order '' @ order_id)))),
      w))"

definition process_refund :: "world \<Rightarrow> string \<Rightarrow> (py_error + string) \<times> world" where
  "process_refund w order_id =
     (let ctx = wrapper_context w in
      (case map_of (orders_db w) order_id of
         None \<Rightarrow> Inr (''Order '' @ order_id @ '' not found.'')
       | Some order \<Rightarrow>
           bind_err (getitem order ''price'') (\<lambda>price.
           bind_err (format_2f price) (\<lambda>price_2f.
           Inr (''Refund processed successfully!\<newline>'' @
                ''- Order: '' @ order_id @ ''\<newline>'' @
                ''- Amount: $'' @ price_2f @ ''\<newline>'' @
                ''- Method: Original payment method\<newline>'' @
                ''- Timeline: 3-5 business days\<newline>'' @
                ''\<newline>'' @
                ''Thank you for your patience, '' @ customer_name ctx @ ''!''))),
      w))"

text \<open>The shape every row of \<open>config.py\<close> has: the four keys the tools subscript, with a
  float price and a string status.\<close>

definition well_formed_order :: "pydict \<Rightarrow> bool" where
  "well_formed_order order =
     ((case order ''customer_id'' of None \<Rightarrow> False | Some v \<Rightarrow> True) \<and>
      (case order ''item'' of None \<Rightarrow> False | Some v \<Rightarrow> True) \<and>
      (case order ''price'' of Some (PyFloat r) \<Rightarrow> True | _ \<Rightarrow> False) \<and>
      (case order ''status'' of Some (PyStr s) \<Rightarrow> True | _ \<Rightarrow> False))"

definition well_formed_db :: "(string \<times> pydict) list \<Rightarrow> bool" where
  "well_formed_db db = list_all (\<lambda>(oid, order). well_formed_order order) db"

section \<open>Customer service demo: the abuse guardrail of \<open>agents_def.py\<close>\<close>

record GuardrailFunctionOutput =
  output_info :: AbuseCheck
  tripwire_triggered :: bool

text \<open>
  \<open>abuse_guardrail\<close> runs the \<open>AbuseDetector\<close> agent and reads its structured output. The
  run of that agent is a call into the framework and the language model; it is the
  parameter \<open>run_abuse_detector\<close>, which returns the \<open>AbuseCheck\<close> or raises.
\<close>

definition abuse_guardrail ::
  "('c \<Rightarrow> 'i \<Rightarrow> 'e + AbuseCheck) \<Rightarrow> 'c \<Rightarrow> 'a \<Rightarrow> 'i \<Rightarrow> 'e + GuardrailFunctionOutput" where
  "abuse_guardrail run_abuse_detector ctx agent input_data =
     bind_err (run_abuse_detector ctx input_data) (\<lambda>check.
     Inr \<lparr>output_info = check, tripwire_triggered = is_abusive check\<rparr>)"

section \<open>Customer service demo: the chat handler of \<open>app.py\<close>\<close>

text \<open>
  The events that \<open>result.stream_events()\<close> yields, as far as \<open>on_message\<close> tells them
  apart. The raw item of a tool call is an object with attributes or a dict; its fields
  are strings or \<open>None\<close>. The output of a tool is modelled by its \<open>str\<close>.
\<close>

datatype raw_item = RawObject "string \<rightharpoonup> string option" | RawDict "string \<rightharpoonup> string option"

datatype run_item = ToolCallItem raw_item | ToolCallOutputItem raw_item string | OtherItem

datatype response_data = ResponseTextDeltaEvent string | OtherResponseEvent

datatype stream_event =
  RunItemStreamEvent run_item | RawResponseEvent response_data | AgentUpdatedStreamEvent

text \<open>How the stream ends: it is exhausted, or iterating it raises.\<close>

datatype stream_end = EndOfStream | InputGuardrailTripwireTriggered | RunError

text \<open>
  What the handler does to the chat display. A widget (a \<open>cl.Step\<close> or a \<open>cl.Message\<close>) is
  identified by the number of widgets created before it.
\<close>

datatype ui_action =
  StepSend nat "string option" "string option"
| StepUpdate nat string
| MessageSend nat string
| StreamToken nat string
| MessageUpdate nat

datatype outcome = Returned | Raised py_error | RaisedRunError

record handler_state =
  tool_steps :: "string \<rightharpoonup> nat"
  msg :: "nat option"
  created :: nat
  shown :: "ui_action list"

text \<open>\<open>raw.k if hasattr(raw, k) else raw.get(k, default)\<close>: an object without the attribute
  has no \<open>get\<close> either.\<close>

definition raw_field :: "raw_item \<Rightarrow> string \<Rightarrow> string option \<Rightarrow> py_error + string option" where
  "raw_field raw k dflt =
     (case raw of
        RawObject attrs \<Rightarrow> (case attrs k of Some v \<Rightarrow> Inr v | None \<Rightarrow> Inl AttributeError)
      | RawDict d \<Rightarrow> (case d k of Some v \<Rightarrow> Inr v | None \<Rightarrow> Inr dflt))"

definition ensure_msg :: "handler_state \<Rightarrow> nat \<times> handler_state" where
  "ensure_msg s =
     (case msg s of
        None \<Rightarrow>
          (let m = created s
           in (m, s\<lparr>msg := Some m, created := Suc m, shown := shown s @ [MessageSend m '''']\<rparr>))
      | Some m \<Rightarrow> (m, s))"

text \<open>The body of the \<open>async for\<close> loop, for one event.\<close>

definition handle_event :: "handler_state \<Rightarrow> stream_event \<Rightarrow> py_error + handler_state" where
  "handle_event s event =
     (case event of
        RunItemStreamEvent item \<Rightarrow>
          (case item of
             ToolCallItem raw \<Rightarrow>
               bind_err (raw_field raw ''name'' (Some ''tool'')) (\<lambda>name.
               bind_err (raw_field raw ''call_id'' None) (\<lambda>call_id.
               bind_err (raw_field raw ''arguments'' (Some '''')) (\<lambda>args.
               let step = created s;
                   s' = s\<lparr>created := Suc step, shown := shown s @ [StepSend step name args]\<rparr>
               in (case call_id of
                     None \<Rightarrow> Inr s'
                   | Some c \<Rightarrow>
                       if c \<noteq> [] then Inr (s'\<lparr>tool_steps := (tool_steps s')(c \<mapsto> step)\<rparr>)
                       else Inr s'))))
           | ToolCallOutputItem raw output \<Rightarrow>
               bind_err (raw_field raw ''call_id'' None) (\<lambda>call_id.
               (case call_id of
                  None \<Rightarrow> Inr s
                | Some c \<Rightarrow>
                    if c \<noteq> [] then
                      (case tool_steps s c of
                         None \<Rightarrow> Inr s
                       | Some step \<Rightarrow> Inr (s\<lparr>shown := shown s @ [StepUpdate step output]\<rparr>))
                    else Inr s))
           | OtherItem \<Rightarrow> Inr s)
      | RawResponseEvent data \<Rightarrow>
          (case data of
             ResponseTextDeltaEvent delta \<Rightarrow>
               (let (m, s') = ensure_msg s
                in Inr (s'\<lparr>shown := shown s' @ [StreamToken m delta]\<rparr>))
           | OtherResponseEvent \<Rightarrow> Inr s)
      | AgentUpdatedStreamEvent \<Rightarrow> Inr s)"

text \<open>The loop over the events; an exception of the body leaves it at once.\<close>

fun stream_loop :: "handler_state \<Rightarrow> stream_event list \<Rightarrow> handler_state \<times> py_error option" where
  "stream_loop s [] = (s, None)"
| "stream_loop s (e # es) =
     (case handle_event s e of Inl err \<Rightarrow> (s, Some err) | Inr s' \<Rightarrow> stream_loop s' es)"

definition apology :: string where
  "apology = ''I'm sorry, but I can't process messages that contain abusive or '' @
             ''inappropriate language. Please rephrase your request and I'll be '' @
             ''happy to help.''"

definition initial_state :: handler_state where
  "initial_state = \<lparr>tool_steps = Map.empty, msg = None, created = 0, shown = []\<rparr>"

text \<open>
  \<open>on_message\<close>, given the events the run yields and how the stream ends: what is sent to
  the display, and whether the handler returns. Only the tripwire exception is caught.
\<close>

definition on_message :: "stream_event list \<Rightarrow> stream_end \<Rightarrow> ui_action list \<times> outcome" where
  "on_message events ending =
     (case stream_loop initial_state events of
        (s, Some err) \<Rightarrow> (shown s, Raised err)
      | (s, None) \<Rightarrow>
          (case ending of
             EndOfStream \<Rightarrow>
               (case msg s of
                  None \<Rightarrow> (shown s, Returned)
                | Some m \<Rightarrow> (shown s @ [MessageUpdate m], Returned))
           | InputGuardrailTripwireTriggered \<Rightarrow>
               (shown s @ [MessageSend (created s) apology], Returned)
           | RunError \<Rightarrow> (shown s, RaisedRunError)))"

text \<open>Projections of an event list and of the display log, used to state the properties
  of the loop.\<close>

fun text_deltas :: "stream_event list \<Rightarrow> string list" where
  "text_deltas [] = []"
| "text_deltas (RawResponseEvent (ResponseTextDeltaEvent delta) # es) = delta # text_deltas es"
| "text_deltas (e # es) = text_deltas es"

fun tool_call_ids :: "stream_event list \<Rightarrow> string list" where
  "tool_call_ids [] = []"
| "tool_call_ids (RunItemStreamEvent (ToolCallItem raw) # es) =
     (case raw_field raw ''call_id'' None of
        Inr (Some c) \<Rightarrow> c # tool_call_ids es
      | _ \<Rightarrow> tool_call_ids es)"
| "tool_call_ids (e # es) = tool_call_ids es"

fun message_action :: "ui_action \<Rightarrow> bool" where
  "message_action (MessageSend m content) = True"
| "message_action (StreamToken m delta) = True"
| "message_action (MessageUpdate m) = True"
| "message_action a = False"

section \<open>Filesystem agent: \<open>filesystem_agent.py\<close>\<close>






















section \<open>Data dashboard agent: the outlier check of \<open>detect_anomalies\<close>\<close>

text \<open>
  The program computes on IEEE doubles through \<open>pandas\<close>. The model is parametric in the
  type \<open>'f\<close> of a float and in the operations used: the comparison \<open><\<close>, the arithmetic, the
  constant \<open>1.5\<close>, \<open>Series.quantile\<close> of the non-null values, and \<open>str(round(x, 2))\<close>.
  A cell of a numeric column is a float or missing; a comparison with a missing value is
  false, as it is for \<open>NaN\<close>.
\<close>

record 'f float_ops =
  fl_less :: "'f \<Rightarrow> 'f \<Rightarrow> bool"
  fl_add :: "'f \<Rightarrow> 'f \<Rightarrow> 'f"
  fl_sub :: "'f \<Rightarrow> 'f \<Rightarrow> 'f"
  fl_mul :: "'f \<Rightarrow> 'f \<Rightarrow> 'f"
  fl_1_5 :: 'f
  fl_quantile :: "'f list \<Rightarrow> rat \<Rightarrow> 'f"
  fl_round2_str :: "'f \<Rightarrow> string"

datatype 'f column = NumericColumn "'f option list" | ObjectColumn "string option list"

type_synonym 'f dataframe = "(string \<times> 'f column) list"

record anomaly =
  an_type :: string
  an_description :: string
  an_location :: string
  an_severity :: string
  an_recommendation :: string
  an_outlier_indices :: "nat list"

text \<open>\<open>Series.dropna()\<close>.\<close>

definition dropna :: "'a option list \<Rightarrow> 'a list" where
  "dropna cells = List.map_filter (\<lambda>c. c) cells"

text \<open>The mask \<open>(df[col] < lower_bound) | (df[col] > upper_bound)\<close> on one cell.\<close>

definition outlier_cell :: "'f float_ops \<Rightarrow> 'f \<Rightarrow> 'f \<Rightarrow> 'f option \<Rightarrow> bool" where
  "outlier_cell ops lower_bound upper_bound cell =
     (case cell of
        None \<Rightarrow> False
      | Some v \<Rightarrow> fl_less ops v lower_bound \<or> fl_less ops upper_bound v)"

text \<open>The index of \<open>df[mask]\<close>, for the default index \<open>0, 1, ...\<close> of the rows.\<close>

definition outlier_rows :: "'f float_ops \<Rightarrow> 'f \<Rightarrow> 'f \<Rightarrow> 'f option list \<Rightarrow> nat list" where
  "outlier_rows ops lower_bound upper_bound cells =
     filter (\<lambda>i. outlier_cell ops lower_bound upper_bound (cells ! i)) [0..<length cells]"

text \<open>The body of the loop over \<open>cols_to_check\<close>: nothing for a name that is no column or
  a column with fewer than ten values; \<open>quantile\<close> raises on a column of strings.\<close>

definition check_column :: "'f float_ops \<Rightarrow> 'f dataframe \<Rightarrow> string \<Rightarrow> py_error + anomaly option" where
  "check_column ops df col =
     (case map_of df col of
        None \<Rightarrow> Inr None
      | Some (ObjectColumn cells) \<Rightarrow>
          if length (dropna cells) < 10 then Inr None else Inl TypeError
      | Some (NumericColumn cells) \<Rightarrow>
          (let data = dropna cells in
           if length data < 10 then Inr None
           else
             (let Q1 = fl_quantile ops data (1 / 4);
                  Q3 = fl_quantile ops data (3 / 4);
                  IQR = fl_sub ops Q3 Q1;
                  lower_bound = fl_sub ops Q1 (fl_mul ops (fl_1_5 ops) IQR);
                  upper_bound = fl_add ops Q3 (fl_mul ops (fl_1_5 ops) IQR);
                  outliers = outlier_rows ops lower_bound upper_bound cells
              in if 0 < length outliers
                 then Inr (Some
                   \<lparr>an_type = ''outliers'',
                    an_description = ''Column '' @ [CHR 0x27] @ col @ [CHR 0x27] @ '' has '' @
                      show_nat (length outliers) @ '' potential outliers'',
                    an_location = ''Column: '' @ col,
                    an_severity = (if length outliers < 5 then ''low'' else ''medium''),
                    an_recommendation = ''Review outliers in '' @ [CHR 0x27] @ col @ [CHR 0x27] @
                      '' - values outside ['' @ fl_round2_str ops lower_bound @ '', '' @
                      fl_round2_str ops upper_bound @ '']'',
                    an_outlier_indices = take 10 outliers\<rparr>)
                 else Inr None)))"

fun check_columns ::
  "'f float_ops \<Rightarrow> 'f dataframe \<Rightarrow> string list \<Rightarrow> anomaly list \<Rightarrow> py_error + anomaly list" where
  "check_columns ops df [] anomalies = Inr anomalies"
| "check_columns ops df (col # cols) anomalies =
     (case check_column ops df col of
        Inl e \<Rightarrow> Inl e
      | Inr None \<Rightarrow> check_columns ops df cols anomalies
      | Inr (Some a) \<Rightarrow> check_columns ops df cols (anomalies @ [a]))"

text \<open>\<open>str.split(",")\<close> and \<open>str.strip()\<close> (on the ASCII white space), for the list of
  column names a caller may give.\<close>

fun split_comma :: "string \<Rightarrow> string list" where
  "split_comma [] = [[]]"
| "split_comma (c # cs) =
     (if c = CHR '','' then [] # split_comma cs
      else (case split_comma cs of [] \<Rightarrow> [[c]] | x # xs \<Rightarrow> (c # x) # xs))"

definition is_space :: "char \<Rightarrow> bool" where
  "is_space c =
     (c \<in> set [CHR 0x09, CHR 0x0A, CHR 0x0B, CHR 0x0C, CHR 0x0D, CHR 0x1C, CHR 0x1D, CHR 0x1E,
               CHR 0x1F, CHR 0x20])"

definition strip :: "string \<Rightarrow> string" where
  "strip s = dropWhile is_space (rev (dropWhile is_space (rev s)))"

definition cols_to_check :: "'f dataframe \<Rightarrow> string option \<Rightarrow> string list" where
  "cols_to_check df numeric_columns =
     (let numeric = map fst (filter (\<lambda>(name, c). case c of NumericColumn cells \<Rightarrow> True
                                                      | ObjectColumn cells \<Rightarrow> False) df)
      in case numeric_columns of
           None \<Rightarrow> numeric
         | Some s \<Rightarrow> if s \<noteq> [] then map strip (split_comma s) else numeric)"

text \<open>The outlier part of \<open>detect_anomalies\<close>: the anomalies it appends, or the exception
  that makes the tool return its error.\<close>

definition outlier_anomalies ::
  "'f float_ops \<Rightarrow> 'f dataframe \<Rightarrow> string option \<Rightarrow> py_error + anomaly list" where
  "outlier_anomalies ops df numeric_columns =
     check_columns ops df (cols_to_check df numeric_columns) []"





section \<open>Verification: helper lemmas\<close>

lemma bind_err_Inr [simp]: "bind_err (Inr x) f = f x"
  by (simp add: bind_err_def)

lemma bind_err_Inl [simp]: "bind_err (Inl e) f = Inl e"
  by (simp add: bind_err_def)

lemma digit_char_in: "d < 10 \<Longrightarrow> digit_char d \<in> set ''0123456789''"
  unfolding digit_char_def by (rule nth_mem) simp

lemma show_nat_digits: "set (show_nat n) \<subseteq> set ''0123456789''"
proof (induction n rule: show_nat.induct)
  case (1 n)
  show ?case
  proof (cases "n < 10")
    case True
    then show ?thesis using digit_char_in [of n] by (subst show_nat.simps) simp
  next
    case False
    have "digit_char (n mod 10) \<in> set ''0123456789''" by (rule digit_char_in) simp
    with False 1 show ?thesis by (subst show_nat.simps) simp
  qed
qed

lemma digit_char_not_paren: "d < 10 \<Longrightarrow> digit_char d \<noteq> CHR ''(''"
  using digit_char_in [of d] by auto

lemma show_nat_not_paren: "CHR ''('' \<notin> set (show_nat n)"
  using show_nat_digits [of n] by auto

lemma fmt_2f_not_paren: "CHR ''('' \<notin> set (fmt_2f x)"
proof -
  have a: "nat (round_half_even (\<bar>x\<bar> * 100)) mod 100 div 10 < 10" by simp
  have b: "nat (round_half_even (\<bar>x\<bar> * 100)) mod 10 < 10" by simp
  show ?thesis
    unfolding fmt_2f_def Let_def
    using digit_char_not_paren [OF a] digit_char_not_paren [OF b]
    by (auto simp: show_nat_not_paren)
qed


lemma getitem_Some [simp]: "d k = Some v \<Longrightarrow> getitem d k = Inr v"
  by (simp add: getitem_def)

lemma getitem_None [simp]: "d k = None \<Longrightarrow> getitem d k = Inl KeyError"
  by (simp add: getitem_def)

lemma format_2f_float [simp]: "format_2f (PyFloat r) = Inr (fmt_2f r)"
  by (simp add: format_2f_def)

lemma gt_50_float [simp]: "gt_50 (PyFloat r) = Inr (50 < r)"
  by (simp add: gt_50_def)

lemma upper_str [simp]: "upper (PyStr s) = Inr (map char_upper s)"
  by (simp add: upper_def)

lemma calc_delivered:
  assumes "map_of db order_id = Some order"
    and "order ''customer_id'' = Some (PyStr (customer_id ctx))"
    and "order ''status'' = Some (PyStr ''delivered'')"
    and "order ''price'' = Some (PyFloat price)"
  shows "fst (calculate_refund \<lparr>orders_db = db, wrapper_context = ctx\<rparr> order_id reason) =
           Inr (''Refund eligible: $'' @ fmt_2f price @
                (if 50 < price then '' (Requires manager approval)'' else '''') @
                ''. Reason: '' @ reason)"
  using assms by (simp add: calculate_refund_def)

lemma note_absent:
  assumes "CHR ''('' \<notin> set reason"
  shows "\<not> sublist '' (Requires manager approval)'' (''Refund eligible: $'' @ fmt_2f price @ ''. Reason: '' @ reason)"
proof
  assume "sublist '' (Requires manager approval)'' (''Refund eligible: $'' @ fmt_2f price @ ''. Reason: '' @ reason)"
  then have "set '' (Requires manager approval)'' \<subseteq> set (''Refund eligible: $'' @ fmt_2f price @ ''. Reason: '' @ reason)"
    by (rule set_mono_sublist)
  then have "CHR ''('' \<in> set (''Refund eligible: $'' @ fmt_2f price @ ''. Reason: '' @ reason)"
    by auto
  with assms fmt_2f_not_paren [of price] show False by auto
qed

lemma note_present:
  "sublist note (pre @ price @ note @ post)"
  by (metis sublist_appendI append.assoc)

lemma floor_rat_numeral: "\<lfloor>(numeral a / numeral b :: rat)\<rfloor> = numeral a div numeral b"
  using floor_divide_of_int_eq [of "numeral a" "numeral b", where ?'a = rat] by simp

lemma round_001: "round_half_even (\<bar>5628795846771343 / 70368744177664\<bar> * 100) = 7999"
  by (simp add: round_half_even_def Let_def floor_rat_numeral)

lemma round_002: "round_half_even (\<bar>5626684784446013 / 281474976710656\<bar> * 100) = 1999"
  by (simp add: round_half_even_def Let_def floor_rat_numeral)

lemma round_003: "round_half_even (\<bar>7312719894942843 / 562949953421312\<bar> * 100) = 1299"
  by (simp add: round_half_even_def Let_def floor_rat_numeral)

lemma round_120: "round_half_even (\<bar>120\<bar> * 100) = 12000"
  by (simp add: round_half_even_def Let_def)

lemma show_nat_values:
  "show_nat 79 = ''79''" "show_nat 19 = ''19''" "show_nat 12 = ''12''" "show_nat 120 = ''120''"
  by (simp_all add: show_nat.simps digit_char_def)

lemma price_001: "fmt_2f (5628795846771343 / 70368744177664) = ''79.99''"
  unfolding fmt_2f_def round_001 by (simp add: show_nat_values digit_char_def)

lemma price_002: "fmt_2f (5626684784446013 / 281474976710656) = ''19.99''"
  unfolding fmt_2f_def round_002 by (simp add: show_nat_values digit_char_def)

lemma price_003: "fmt_2f (7312719894942843 / 562949953421312) = ''12.99''"
  unfolding fmt_2f_def round_003 by (simp add: show_nat_values digit_char_def)

lemma price_120: "fmt_2f 120 = ''120.00''"
  unfolding fmt_2f_def round_120 by (simp add: show_nat_values digit_char_def)

lemma map_of_ORDERS_DB:
  "map_of (ORDERS_DB e d) ''ORD-001'' = Some (ORD_001 e)"
  "map_of (ORDERS_DB e d) ''ORD-002'' = Some (ORD_002 d)"
  "map_of (ORDERS_DB e d) ''ORD-003'' = Some ORD_003"
  by (simp_all add: ORDERS_DB_def)

lemma ORD_001_fields:
  "ORD_001 e ''customer_id'' = Some (PyStr ''CUST-123'')"
  "ORD_001 e ''item'' = Some (PyStr ''Wireless Headphones'')"
  "ORD_001 e ''price'' = Some (PyFloat (5628795846771343 / 70368744177664))"
  "ORD_001 e ''status'' = Some (PyStr ''shipped'')"
  "ORD_001 e ''tracking'' = Some (PyStr ''1Z999AA10123456784'')"
  "ORD_001 e ''eta'' = Some (PyStr e)"
  "ORD_001 e ''delivered_date'' = None"
  by (simp_all add: ORD_001_def)

lemma ORD_002_fields:
  "ORD_002 d ''customer_id'' = Some (PyStr ''CUST-123'')"
  "ORD_002 d ''item'' = Some (PyStr ''Phone Case'')"
  "ORD_002 d ''price'' = Some (PyFloat (5626684784446013 / 281474976710656))"
  "ORD_002 d ''status'' = Some (PyStr ''delivered'')"
  "ORD_002 d ''tracking'' = Some (PyStr ''1Z999AA10123456785'')"
  "ORD_002 d ''eta'' = None"
  "ORD_002 d ''delivered_date'' = Some (PyStr d)"
  by (simp_all add: ORD_002_def)

lemma ORD_003_fields:
  "ORD_003 ''customer_id'' = Some (PyStr ''CUST-456'')"
  "ORD_003 ''item'' = Some (PyStr ''USB Cable'')"
  "ORD_003 ''price'' = Some (PyFloat (7312719894942843 / 562949953421312))"
  "ORD_003 ''status'' = Some (PyStr ''processing'')"
  "ORD_003 ''tracking'' = Some PyNone"
  "ORD_003 ''eta'' = Some (PyStr ''Pending shipment'')"
  "ORD_003 ''delivered_date'' = None"
  by (simp_all add: ORD_003_def)

section \<open>Customer service demo: refunds\<close>

text \<open>
  C1. For an order of the table that belongs to the context customer and whose status is
  \<open>delivered\<close>, \<open>calculate_refund\<close> returns the message \<open>Refund eligible: $\<close> followed by
  the full price with two decimals, then the note \<open> (Requires manager approval)\<close> exactly
  when the price is strictly greater than 50, then \<open>. Reason: \<close> and the caller's reason.
  The returned message as a whole contains the note if and only if the price exceeds 50
  whenever the reason text holds no opening parenthesis; the reason is copied into the
  message, so a reason that itself spells the note puts it there at any price.
\<close>

theorem calculate_refund_delivered:
  assumes "map_of db order_id = Some order"
    and "order ''customer_id'' = Some (PyStr (customer_id ctx))"
    and "order ''status'' = Some (PyStr ''delivered'')"
    and "order ''price'' = Some (PyFloat price)"
  shows "\<exists>msg. fst (calculate_refund \<lparr>orders_db = db, wrapper_context = ctx\<rparr> order_id reason) = Inr msg \<and>
           msg = ''Refund eligible: $'' @ fmt_2f price @
                 (if 50 < price then '' (Requires manager approval)'' else '''') @
                 ''. Reason: '' @ reason \<and>
           (CHR ''('' \<notin> set reason \<longrightarrow> sublist '' (Requires manager approval)'' msg = (50 < price))"
proof (cases "50 < price")
  case True
  then show ?thesis
    using calc_delivered [OF assms, of reason] note_present [of "'' (Requires manager approval)''" "''Refund eligible: $''" "fmt_2f price" "''. Reason: '' @ reason"]
    by simp
next
  case False
  then show ?thesis
    using calc_delivered [OF assms, of reason] note_absent [of reason price]
    by simp
qed


text \<open>The theorem at the delivered order \<open>ORD-002\<close> (19.99, no note) and at the same row
  priced 120 (note present).\<close>

theorem calculate_refund_delivered_witness:
  "fst (calculate_refund \<lparr>orders_db = ORDERS_DB ''2026-11-05'' ''2026-10-31'', wrapper_context = alice\<rparr>
          ''ORD-002'' ''damaged'') = Inr ''Refund eligible: $19.99. Reason: damaged'' \<and>
   \<not> sublist '' (Requires manager approval)'' ''Refund eligible: $19.99. Reason: damaged'' \<and>
   fst (calculate_refund \<lparr>orders_db = [(''ORD-007'', (ORD_002 ''2026-10-31'')(''price'' \<mapsto> PyFloat 120))],
          wrapper_context = alice\<rparr> ''ORD-007'' ''damaged'') =
     Inr ''Refund eligible: $120.00 (Requires manager approval). Reason: damaged'' \<and>
   sublist '' (Requires manager approval)'' ''Refund eligible: $120.00 (Requires manager approval). Reason: damaged''"
proof -
  have a: "customer_id alice = ''CUST-123''" by (simp add: alice_def)
  note f = price_120
  have one: "fst (calculate_refund \<lparr>orders_db = ORDERS_DB ''2026-11-05'' ''2026-10-31'', wrapper_context = alice\<rparr>
          ''ORD-002'' ''damaged'') = Inr ''Refund eligible: $19.99. Reason: damaged'' \<and>
     \<not> sublist '' (Requires manager approval)'' ''Refund eligible: $19.99. Reason: damaged''"
    using calculate_refund_delivered [of "ORDERS_DB ''2026-11-05'' ''2026-10-31''" "''ORD-002''"
        "ORD_002 ''2026-10-31''" alice "5626684784446013 / 281474976710656" "''damaged''"]
    by (simp add: map_of_ORDERS_DB ORD_002_fields a price_002)
  have two: "fst (calculate_refund \<lparr>orders_db = [(''ORD-007'', (ORD_002 ''2026-10-31'')(''price'' \<mapsto> PyFloat 120))],
          wrapper_context = alice\<rparr> ''ORD-007'' ''damaged'') =
     Inr ''Refund eligible: $120.00 (Requires manager approval). Reason: damaged'' \<and>
     sublist '' (Requires manager approval)'' ''Refund eligible: $120.00 (Requires manager approval). Reason: damaged''"
    using calculate_refund_delivered [of "[(''ORD-007'', (ORD_002 ''2026-10-31'')(''price'' \<mapsto> PyFloat 120))]"
        "''ORD-007''" "(ORD_002 ''2026-10-31'')(''price'' \<mapsto> PyFloat 120)" alice 120 "''damaged''"]
    by (simp add: ORD_002_fields a f)
  from one two show ?thesis by blast
qed

text \<open>
  The claim as first stated, that the message contains the note only if the price exceeds
  50, fails when the reason given for \<open>ORD-002\<close> (price 19.99) is the text of the note.
\<close>

theorem calculate_refund_note_counterexample:
  "fst (calculate_refund \<lparr>orders_db = ORDERS_DB ''2026-11-05'' ''2026-10-31'', wrapper_context = alice\<rparr>
          ''ORD-002'' '' (Requires manager approval)'') =
     Inr ''Refund eligible: $19.99. Reason:  (Requires manager approval)'' \<and>
   sublist '' (Requires manager approval)'' ''Refund eligible: $19.99. Reason:  (Requires manager approval)'' \<and>
   ORD_002 ''2026-10-31'' ''price'' = Some (PyFloat (5626684784446013 / 281474976710656)) \<and>
   \<not> (50 :: rat) < 5626684784446013 / 281474976710656"
proof -
  have a: "customer_id alice = ''CUST-123''" by (simp add: alice_def)
  have 1: "fst (calculate_refund \<lparr>orders_db = ORDERS_DB ''2026-11-05'' ''2026-10-31'', wrapper_context = alice\<rparr>
          ''ORD-002'' '' (Requires manager approval)'') =
     Inr ''Refund eligible: $19.99. Reason:  (Requires manager approval)''"
    by (simp add: calculate_refund_def map_of_ORDERS_DB ORD_002_fields a price_002)
  have 2: "sublist '' (Requires manager approval)'' ''Refund eligible: $19.99. Reason:  (Requires manager approval)''"
    by (rule sublist_appendI [of "'' (Requires manager approval)''" "''Refund eligible: $19.99. Reason: ''" "[]", simplified])
  show ?thesis using 1 2 by (simp add: ORD_002_fields)
qed

text \<open>
  C2. For an order of the table that belongs to the context customer (with a float price),
  the outcome of \<open>calculate_refund\<close> is a truth table over the status string and the
  customer's \<open>is_premium\<close> flag: \<open>processing\<close> gives a cancellable full refund of the price;
  \<open>shipped\<close> gives a full refund upon return to a premium customer and otherwise the
  instruction to wait for delivery; \<open>delivered\<close> gives refund eligibility; any other status
  gives the message that the refund cannot be processed.
\<close>

theorem calculate_refund_truth_table:
  assumes "map_of db order_id = Some order"
    and "order ''customer_id'' = Some (PyStr (customer_id ctx))"
    and "order ''price'' = Some (PyFloat price)"
    and "order ''status'' = Some status"
  shows "fst (calculate_refund \<lparr>orders_db = db, wrapper_context = ctx\<rparr> order_id reason) =
           Inr (if status = PyStr ''processing''
                then ''Order '' @ order_id @ '' can be cancelled for a full refund of $'' @
                     fmt_2f price @ ''. Reason: '' @ reason
                else if status = PyStr ''shipped''
                then (if is_premium ctx
                      then ''Premium customer: Eligible for full refund of $'' @ fmt_2f price @
                           '' upon return. Reason: '' @ reason
                      else ''Order in transit. Please wait for delivery to request refund. Reason: '' @
                           reason)
                else if status = PyStr ''delivered''
                then ''Refund eligible: $'' @ fmt_2f price @
                     (if 50 < price then '' (Requires manager approval)'' else '''') @
                     ''. Reason: '' @ reason
                else ''Unable to process refund for order '' @ order_id)"
  using assms by (simp add: calculate_refund_def)

text \<open>One instance for each row of the truth table.\<close>

theorem calculate_refund_truth_table_witness:
  "fst (calculate_refund \<lparr>orders_db = ORDERS_DB ''2026-11-05'' ''2026-10-31'', wrapper_context = alice\<rparr>
          ''ORD-001'' ''late'') =
     Inr ''Premium customer: Eligible for full refund of $79.99 upon return. Reason: late'' \<and>
   fst (calculate_refund \<lparr>orders_db = ORDERS_DB ''2026-11-05'' ''2026-10-31'', wrapper_context = alice\<rparr>
          ''ORD-002'' ''late'') =
     Inr ''Refund eligible: $19.99. Reason: late'' \<and>
   fst (calculate_refund \<lparr>orders_db = ORDERS_DB ''2026-11-05'' ''2026-10-31'', wrapper_context = bob\<rparr>
          ''ORD-003'' ''late'') =
     Inr ''Order ORD-003 can be cancelled for a full refund of $12.99. Reason: late'' \<and>
   fst (calculate_refund \<lparr>orders_db = [(''ORD-001'', ORD_001 ''2026-11-05'')],
          wrapper_context = alice\<lparr>is_premium := False\<rparr>\<rparr> ''ORD-001'' ''late'') =
     Inr ''Order in transit. Please wait for delivery to request refund. Reason: late'' \<and>
   fst (calculate_refund \<lparr>orders_db = [(''ORD-003'', ORD_003(''status'' \<mapsto> PyStr ''refunded''))],
          wrapper_context = bob\<rparr> ''ORD-003'' ''late'') =
     Inr ''Unable to process refund for order ORD-003''"
proof -
  have a: "customer_id alice = ''CUST-123''" "is_premium alice"
    and b: "customer_id bob = ''CUST-456''"
    by (simp_all add: alice_def bob_def)
  have 1: "fst (calculate_refund \<lparr>orders_db = ORDERS_DB ''2026-11-05'' ''2026-10-31'', wrapper_context = alice\<rparr>
          ''ORD-001'' ''late'') =
     Inr ''Premium customer: Eligible for full refund of $79.99 upon return. Reason: late''"
    using calculate_refund_truth_table [of "ORDERS_DB ''2026-11-05'' ''2026-10-31''" "''ORD-001''"
        "ORD_001 ''2026-11-05''" alice "5628795846771343 / 70368744177664" "PyStr ''shipped''" "''late''"]
    by (simp add: map_of_ORDERS_DB ORD_001_fields a price_001)
  have 2: "fst (calculate_refund \<lparr>orders_db = ORDERS_DB ''2026-11-05'' ''2026-10-31'', wrapper_context = alice\<rparr>
          ''ORD-002'' ''late'') =
     Inr ''Refund eligible: $19.99. Reason: late''"
    using calculate_refund_truth_table [of "ORDERS_DB ''2026-11-05'' ''2026-10-31''" "''ORD-002''"
        "ORD_002 ''2026-10-31''" alice "5626684784446013 / 281474976710656" "PyStr ''delivered''" "''late''"]
    by (simp add: map_of_ORDERS_DB ORD_002_fields a price_002)
  have 3: "fst (calculate_refund \<lparr>orders_db = ORDERS_DB ''2026-11-05'' ''2026-10-31'', wrapper_context = bob\<rparr>
          ''ORD-003'' ''late'') =
     Inr ''Order ORD-003 can be cancelled for a full refund of $12.99. Reason: late''"
    using calculate_refund_truth_table [of "ORDERS_DB ''2026-11-05'' ''2026-10-31''" "''ORD-003''"
        ORD_003 bob "7312719894942843 / 562949953421312" "PyStr ''processing''" "''late''"]
    by (simp add: map_of_ORDERS_DB ORD_003_fields b price_003)
  have 4: "fst (calculate_refund \<lparr>orders_db = [(''ORD-001'', ORD_001 ''2026-11-05'')],
          wrapper_context = alice\<lparr>is_premium := False\<rparr>\<rparr> ''ORD-001'' ''late'') =
     Inr ''Order in transit. Please wait for delivery to request refund. Reason: late''"
    using calculate_refund_truth_table [of "[(''ORD-001'', ORD_001 ''2026-11-05'')]" "''ORD-001''"
        "ORD_001 ''2026-11-05''" "alice\<lparr>is_premium := False\<rparr>" "5628795846771343 / 70368744177664"
        "PyStr ''shipped''" "''late''"]
    by (simp add: ORD_001_fields a)
  have 5: "fst (calculate_refund \<lparr>orders_db = [(''ORD-003'', ORD_003(''status'' \<mapsto> PyStr ''refunded''))],
          wrapper_context = bob\<rparr> ''ORD-003'' ''late'') =
     Inr ''Unable to process refund for order ORD-003''"
    using calculate_refund_truth_table [of "[(''ORD-003'', ORD_003(''status'' \<mapsto> PyStr ''refunded''))]"
        "''ORD-003''" "ORD_003(''status'' \<mapsto> PyStr ''refunded'')" bob
        "7312719894942843 / 562949953421312" "PyStr ''refunded''" "''late''"]
    by (simp add: ORD_003_fields b)
  from 1 2 3 4 5 show ?thesis by blast
qed

lemma well_formed_db_order:
  assumes "well_formed_db db" and "map_of db order_id = Some order"
  shows "well_formed_order order"
proof -
  from assms(2) have "(order_id, order) \<in> set db" by (rule map_of_SomeD)
  with assms(1) show ?thesis by (auto simp: well_formed_db_def list_all_iff)
qed

lemma well_formed_order_fields:
  assumes "well_formed_order order"
  obtains cid item price status where
    "order ''customer_id'' = Some cid" "order ''item'' = Some item"
    "order ''price'' = Some (PyFloat price)" "order ''status'' = Some (PyStr status)"
  using assms unfolding well_formed_order_def
  by (auto split: option.splits pyval.splits)

lemma well_formed_ORDERS_DB: "well_formed_db (ORDERS_DB e d)"
  by (simp add: well_formed_db_def ORDERS_DB_def well_formed_order_def
      ORD_001_fields ORD_002_fields ORD_003_fields)

section \<open>Customer service demo: order lookup\<close>

text \<open>
  C7. \<open>lookup_order\<close> is a guarded dictionary lookup. On a table whose rows have the shape of
  \<open>config.py\<close> it never raises: it returns the \<open>not found\<close> message when the order id is not
  a key, the \<open>does not belong to your account\<close> message when the row's customer id differs
  from the context customer's, and the formatted order details otherwise; the details are
  neither of the two refusals, so they are returned exactly when the id is a key and the
  customer matches.
\<close>

theorem lookup_order_guarded:
  assumes "well_formed_db db"
  shows "\<exists>msg. fst (lookup_order float_repr \<lparr>orders_db = db, wrapper_context = ctx\<rparr> order_id) = Inr msg \<and>
     (case map_of db order_id of
        None \<Rightarrow> msg = ''Order '' @ order_id @ '' not found.''
      | Some order \<Rightarrow>
          if order ''customer_id'' = Some (PyStr (customer_id ctx))
          then (\<exists>item price status.
                  order ''item'' = Some item \<and> order ''price'' = Some (PyFloat price) \<and>
                  order ''status'' = Some (PyStr status) \<and>
                  msg = ''\<newline>Order '' @ order_id @ '':\<newline>'' @
                        ''- Item: '' @ py_str float_repr item @ ''\<newline>'' @
                        ''- Price: $'' @ fmt_2f price @ ''\<newline>'' @
                        ''- Status: '' @ map char_upper status @ ''\<newline>'' @
                        ''- Tracking: '' @
                          py_str float_repr (dict_get order ''tracking'' (PyStr ''Not yet available'')) @
                          ''\<newline>'' @
                        ''- ETA: '' @
                          py_str float_repr
                            (dict_get order ''eta'' (dict_get order ''delivered_date'' (PyStr ''N/A''))) @
                          ''\<newline>'') \<and>
               msg \<noteq> ''Order '' @ order_id @ '' not found.'' \<and>
               msg \<noteq> ''Order '' @ order_id @ '' does not belong to your account.''
          else msg = ''Order '' @ order_id @ '' does not belong to your account.'')"
proof (cases "map_of db order_id")
  case None
  then show ?thesis by (simp add: lookup_order_def)
next
  case (Some order)
  with assms have "well_formed_order order" by (rule well_formed_db_order)
  then obtain cid item price status where f:
    "order ''customer_id'' = Some cid" "order ''item'' = Some item"
    "order ''price'' = Some (PyFloat price)" "order ''status'' = Some (PyStr status)"
    by (rule well_formed_order_fields)
  show ?thesis
  proof (cases "cid = PyStr (customer_id ctx)")
    case True
    with Some f show ?thesis by (simp add: lookup_order_def)
  next
    case False
    with Some f show ?thesis by (simp add: lookup_order_def)
  qed
qed

text \<open>The three outcomes on the table of \<open>config.py\<close>, for the customer \<open>CUST-123\<close>.\<close>

lemma py_str_simps [simp]:
  "py_str float_repr (PyStr s) = s" "py_str float_repr PyNone = ''None''"
  by (simp_all add: py_str_def)

lemma dict_get_simps [simp]:
  "d k = Some v \<Longrightarrow> dict_get d k dflt = v" "d k = None \<Longrightarrow> dict_get d k dflt = dflt"
  by (simp_all add: dict_get_def)

lemma upper_shipped: "map char_upper ''shipped'' = ''SHIPPED''"
  by (simp add: char_upper_def)

theorem lookup_order_guarded_witness:
  "well_formed_db (ORDERS_DB ''2026-11-05'' ''2026-10-31'') \<and>
   fst (lookup_order (\<lambda>r. ''?'') \<lparr>orders_db = ORDERS_DB ''2026-11-05'' ''2026-10-31'', wrapper_context = alice\<rparr>
          ''ORD-001'') =
     Inr ''\<newline>Order ORD-001:\<newline>- Item: Wireless Headphones\<newline>- Price: $79.99\<newline>- Status: SHIPPED\<newline>- Tracking: 1Z999AA10123456784\<newline>- ETA: 2026-11-05\<newline>'' \<and>
   fst (lookup_order (\<lambda>r. ''?'') \<lparr>orders_db = ORDERS_DB ''2026-11-05'' ''2026-10-31'', wrapper_context = alice\<rparr>
          ''ORD-003'') = Inr ''Order ORD-003 does not belong to your account.'' \<and>
   fst (lookup_order (\<lambda>r. ''?'') \<lparr>orders_db = ORDERS_DB ''2026-11-05'' ''2026-10-31'', wrapper_context = alice\<rparr>
          ''ORD-004'') = Inr ''Order ORD-004 not found.''"
proof -
  let ?db = "ORDERS_DB ''2026-11-05'' ''2026-10-31''"
  let ?w = "\<lparr>orders_db = ?db, wrapper_context = alice\<rparr>"
  have wf: "well_formed_db ?db" by (rule well_formed_ORDERS_DB)
  have a: "customer_id alice = ''CUST-123''" by (simp add: alice_def)
  have n: "map_of ?db ''ORD-004'' = None" by (simp add: ORDERS_DB_def)
  let ?details = "\<lambda>item price status.
                 ''\<newline>Order '' @ ''ORD-001'' @ '':\<newline>'' @
                 ''- Item: '' @ py_str (\<lambda>r. ''?'') item @ ''\<newline>'' @
                 ''- Price: $'' @ fmt_2f price @ ''\<newline>'' @
                 ''- Status: '' @ map char_upper status @ ''\<newline>'' @
                 ''- Tracking: '' @
                   py_str (\<lambda>r. ''?'') (dict_get (ORD_001 ''2026-11-05'') ''tracking'' (PyStr ''Not yet available'')) @
                   ''\<newline>'' @
                 ''- ETA: '' @
                   py_str (\<lambda>r. ''?'')
                     (dict_get (ORD_001 ''2026-11-05'') ''eta'' (dict_get (ORD_001 ''2026-11-05'') ''delivered_date'' (PyStr ''N/A''))) @
                   ''\<newline>''"
  have "\<exists>msg. fst (lookup_order (\<lambda>r. ''?'') ?w ''ORD-001'') = Inr msg \<and>
          (\<exists>item price status.
             ORD_001 ''2026-11-05'' ''item'' = Some item \<and>
             ORD_001 ''2026-11-05'' ''price'' = Some (PyFloat price) \<and>
             ORD_001 ''2026-11-05'' ''status'' = Some (PyStr status) \<and>
             msg = ?details item price status) \<and>
          msg \<noteq> ''Order '' @ ''ORD-001'' @ '' not found.'' \<and>
          msg \<noteq> ''Order '' @ ''ORD-001'' @ '' does not belong to your account.''"
    using lookup_order_guarded [OF wf, of "\<lambda>r. ''?''" alice "''ORD-001''"]
    unfolding map_of_ORDERS_DB option.case ORD_001_fields(1) a by (simp only: simp_thms if_True)
  then obtain m1 item price status where r1: "fst (lookup_order (\<lambda>r. ''?'') ?w ''ORD-001'') = Inr m1"
    and i: "ORD_001 ''2026-11-05'' ''item'' = Some item"
    and p: "ORD_001 ''2026-11-05'' ''price'' = Some (PyFloat price)"
    and st: "ORD_001 ''2026-11-05'' ''status'' = Some (PyStr status)"
    and m: "m1 = ?details item price status"
    by blast
  from i have i': "item = PyStr ''Wireless Headphones''"
    unfolding ORD_001_fields by (simp only: option.inject)
  from p have "PyFloat (5628795846771343 / 70368744177664) = PyFloat price"
    unfolding ORD_001_fields by (simp only: option.inject)
  then have "5628795846771343 / 70368744177664 = price"
    by (simp only: pyval.inject)
  with price_001 have p': "fmt_2f price = ''79.99''"
    by (simp only:)
  from st have "status = ''shipped''"
    unfolding ORD_001_fields by (simp only: option.inject pyval.inject)
  with upper_shipped have s': "map char_upper status = ''SHIPPED''"
    by (simp only:)
  have e1: "m1 = ''\<newline>Order ORD-001:\<newline>- Item: Wireless Headphones\<newline>- Price: $79.99\<newline>- Status: SHIPPED\<newline>- Tracking: 1Z999AA10123456784\<newline>- ETA: 2026-11-05\<newline>''"
    unfolding m i' p' s' by (simp add: ORD_001_fields)
  from lookup_order_guarded [OF wf, of "\<lambda>r. ''?''" alice "''ORD-003''"]
  have r3: "fst (lookup_order (\<lambda>r. ''?'') ?w ''ORD-003'') = Inr ''Order ORD-003 does not belong to your account.''"
    unfolding map_of_ORDERS_DB by (simp add: ORD_003_fields a)
  from lookup_order_guarded [OF wf, of "\<lambda>r. ''?''" alice "''ORD-004''"]
  have r4: "fst (lookup_order (\<lambda>r. ''?'') ?w ''ORD-004'') = Inr ''Order ORD-004 not found.''"
    unfolding n by simp
  from wf r1 e1 r3 r4 show ?thesis by simp
qed

section \<open>Customer service demo: processing a refund\<close>

text \<open>
  C9. \<open>process_refund\<close> does not check who owns the order. For every order id of the table
  (with a float price) and every customer context it returns the
  \<open>Refund processed successfully\<close> message with the order's price, whatever the customer id
  of the row and of the context: two callers of the same name get the same result. The same
  order, when it belongs to another customer, is refused by \<open>lookup_order\<close> and by
  \<open>calculate_refund\<close>.
\<close>

theorem process_refund_ignores_owner:
  assumes "map_of db order_id = Some order"
    and "order ''price'' = Some (PyFloat price)"
  shows "fst (process_refund \<lparr>orders_db = db, wrapper_context = ctx\<rparr> order_id) =
           Inr (''Refund processed successfully!\<newline>'' @
                ''- Order: '' @ order_id @ ''\<newline>'' @
                ''- Amount: $'' @ fmt_2f price @ ''\<newline>'' @
                ''- Method: Original payment method\<newline>'' @
                ''- Timeline: 3-5 business days\<newline>'' @
                ''\<newline>'' @
                ''Thank you for your patience, '' @ customer_name ctx @ ''!'') \<and>
         (\<forall>other. customer_name other = customer_name ctx \<longrightarrow>
            fst (process_refund \<lparr>orders_db = db, wrapper_context = other\<rparr> order_id) =
            fst (process_refund \<lparr>orders_db = db, wrapper_context = ctx\<rparr> order_id)) \<and>
         (\<forall>cid. order ''customer_id'' = Some cid \<and> cid \<noteq> PyStr (customer_id ctx) \<longrightarrow>
            fst (lookup_order float_repr \<lparr>orders_db = db, wrapper_context = ctx\<rparr> order_id) =
              Inr (''Order '' @ order_id @ '' does not belong to your account.'') \<and>
            fst (calculate_refund \<lparr>orders_db = db, wrapper_context = ctx\<rparr> order_id reason) =
              Inr ''This order does not belong to your account.'')"
  using assms by (simp add: process_refund_def lookup_order_def calculate_refund_def)

text \<open>Alice (\<open>CUST-123\<close>) and the order \<open>ORD-003\<close> of \<open>CUST-456\<close>: refunded by
  \<open>process_refund\<close>, refused by the other two tools.\<close>

theorem process_refund_ignores_owner_witness:
  "fst (process_refund \<lparr>orders_db = ORDERS_DB ''2026-11-05'' ''2026-10-31'', wrapper_context = alice\<rparr>
          ''ORD-003'') =
     Inr ''Refund processed successfully!\<newline>- Order: ORD-003\<newline>- Amount: $12.99\<newline>- Method: Original payment method\<newline>- Timeline: 3-5 business days\<newline>\<newline>Thank you for your patience, Alice Johnson!'' \<and>
   fst (lookup_order (\<lambda>r. ''?'') \<lparr>orders_db = ORDERS_DB ''2026-11-05'' ''2026-10-31'', wrapper_context = alice\<rparr>
          ''ORD-003'') = Inr ''Order ORD-003 does not belong to your account.'' \<and>
   fst (calculate_refund \<lparr>orders_db = ORDERS_DB ''2026-11-05'' ''2026-10-31'', wrapper_context = alice\<rparr>
          ''ORD-003'' ''late'') = Inr ''This order does not belong to your account.''"
proof -
  have a: "customer_id alice = ''CUST-123''" "customer_name alice = ''Alice Johnson''"
    by (simp_all add: alice_def)
  show ?thesis
    using process_refund_ignores_owner [of "ORDERS_DB ''2026-11-05'' ''2026-10-31''" "''ORD-003''"
        ORD_003 "7312719894942843 / 562949953421312" alice "\<lambda>r. ''?''" "''late''"]
    by (simp add: map_of_ORDERS_DB ORD_003_fields a price_003)
qed

section \<open>Customer service demo: the tools leave their world unchanged\<close>

text \<open>
  C3. The four customer-service tools are stateless: for every input, each of them leaves
  the order table and the customer context as they were. In particular \<open>process_refund\<close>
  returns its \<open>Refund processed successfully\<close> message and the table it was given, the
  refunded row with the same status, price and other fields.
\<close>

theorem tools_are_stateless:
  "snd (lookup_order float_repr w order_id) = w \<and>
   snd (list_customer_orders float_repr w) = w \<and>
   snd (calculate_refund w order_id reason) = w \<and>
   snd (process_refund w order_id) = w \<and>
   (\<forall>order price.
      map_of (orders_db w) order_id = Some order \<and> order ''price'' = Some (PyFloat price) \<longrightarrow>
      process_refund w order_id =
        (Inr (''Refund processed successfully!\<newline>'' @
              ''- Order: '' @ order_id @ ''\<newline>'' @
              ''- Amount: $'' @ fmt_2f price @ ''\<newline>'' @
              ''- Method: Original payment method\<newline>'' @
              ''- Timeline: 3-5 business days\<newline>'' @
              ''\<newline>'' @
              ''Thank you for your patience, '' @ customer_name (wrapper_context w) @ ''!''), w) \<and>
      map_of (orders_db (snd (process_refund w order_id))) order_id = Some order)"
  by (simp add: lookup_order_def list_customer_orders_def calculate_refund_def process_refund_def Let_def)

text \<open>Refunding the delivered order \<open>ORD-002\<close> leaves its row in the table, still
  \<open>delivered\<close> at 19.99.\<close>

theorem tools_are_stateless_witness:
  "process_refund \<lparr>orders_db = ORDERS_DB ''2026-11-05'' ''2026-10-31'', wrapper_context = alice\<rparr> ''ORD-002'' =
     (Inr ''Refund processed successfully!\<newline>- Order: ORD-002\<newline>- Amount: $19.99\<newline>- Method: Original payment method\<newline>- Timeline: 3-5 business days\<newline>\<newline>Thank you for your patience, Alice Johnson!'',
      \<lparr>orders_db = ORDERS_DB ''2026-11-05'' ''2026-10-31'', wrapper_context = alice\<rparr>) \<and>
   map_of (orders_db (snd (process_refund
       \<lparr>orders_db = ORDERS_DB ''2026-11-05'' ''2026-10-31'', wrapper_context = alice\<rparr> ''ORD-002''))) ''ORD-002'' =
     Some (ORD_002 ''2026-10-31'') \<and>
   ORD_002 ''2026-10-31'' ''status'' = Some (PyStr ''delivered'')"
proof -
  have a: "customer_name alice = ''Alice Johnson''"
    by (simp add: alice_def)
  have "map_of (orders_db \<lparr>orders_db = ORDERS_DB ''2026-11-05'' ''2026-10-31'', wrapper_context = alice\<rparr>)
           ''ORD-002'' = Some (ORD_002 ''2026-10-31'') \<and>
        ORD_002 ''2026-10-31'' ''price'' = Some (PyFloat (5626684784446013 / 281474976710656))"
    by (simp add: map_of_ORDERS_DB ORD_002_fields)
  with tools_are_stateless [of "\<lambda>r. ''?''"
        "\<lparr>orders_db = ORDERS_DB ''2026-11-05'' ''2026-10-31'', wrapper_context = alice\<rparr>" "''ORD-002''" "''late''"]
  have "process_refund \<lparr>orders_db = ORDERS_DB ''2026-11-05'' ''2026-10-31'', wrapper_context = alice\<rparr> ''ORD-002'' =
        (Inr (''Refund processed successfully!\<newline>'' @
              ''- Order: '' @ ''ORD-002'' @ ''\<newline>'' @
              ''- Amount: $'' @ fmt_2f (5626684784446013 / 281474976710656) @ ''\<newline>'' @
              ''- Method: Original payment method\<newline>'' @
              ''- Timeline: 3-5 business days\<newline>'' @
              ''\<newline>'' @
              ''Thank you for your patience, '' @
              customer_name (wrapper_context \<lparr>orders_db = ORDERS_DB ''2026-11-05'' ''2026-10-31'', wrapper_context = alice\<rparr>) @ ''!''),
         \<lparr>orders_db = ORDERS_DB ''2026-11-05'' ''2026-10-31'', wrapper_context = alice\<rparr>) \<and>
        map_of (orders_db (snd (process_refund
          \<lparr>orders_db = ORDERS_DB ''2026-11-05'' ''2026-10-31'', wrapper_context = alice\<rparr> ''ORD-002''))) ''ORD-002'' =
          Some (ORD_002 ''2026-10-31'')"
    by blast
  then show ?thesis
    by (simp add: price_002 a ORD_002_fields map_of_ORDERS_DB)
qed

lemma handle_text_delta:
  "handle_event s (RawResponseEvent (ResponseTextDeltaEvent delta)) =
     Inr (case msg s of
            None \<Rightarrow> s\<lparr>msg := Some (created s), created := Suc (created s),
                        shown := shown s @ [MessageSend (created s) '''', StreamToken (created s) delta]\<rparr>
          | Some m \<Rightarrow> s\<lparr>shown := shown s @ [StreamToken m delta]\<rparr>)"
  by (simp add: handle_event_def ensure_msg_def Let_def split: option.split)

lemma handle_other_event:
  assumes "handle_event s e = Inr s'"
    and "\<And>delta. e \<noteq> RawResponseEvent (ResponseTextDeltaEvent delta)"
  shows "msg s' = msg s \<and> filter message_action (shown s') = filter message_action (shown s)"
proof (cases e)
  case (RunItemStreamEvent item)
  show ?thesis
  proof (cases item)
    case (ToolCallItem raw)
    with RunItemStreamEvent assms(1) show ?thesis
      by (auto simp: handle_event_def bind_err_def Let_def split: sum.splits option.splits if_splits)
  next
    case (ToolCallOutputItem raw out)
    with RunItemStreamEvent assms(1) show ?thesis
      by (auto simp: handle_event_def bind_err_def split: sum.splits option.splits if_splits)
  next
    case OtherItem
    with RunItemStreamEvent assms(1) show ?thesis
      by (simp add: handle_event_def)
  qed
next
  case (RawResponseEvent data)
  with assms show ?thesis
    by (cases data) (auto simp add: handle_event_def)
next
  case AgentUpdatedStreamEvent
  with assms(1) show ?thesis
    by (simp add: handle_event_def)
qed

lemma text_deltas_other:
  assumes "\<And>delta. e \<noteq> RawResponseEvent (ResponseTextDeltaEvent delta)"
  shows "text_deltas (e # es) = text_deltas es"
  using assms by (cases "(e # es)" rule: text_deltas.cases) auto

text \<open>The message widget along a run of the loop that raises nothing.\<close>

lemma stream_loop_messages:
  assumes "stream_loop s es = (s', None)"
  shows "case msg s of
           Some m \<Rightarrow>
             msg s' = Some m \<and>
             filter message_action (shown s') =
               filter message_action (shown s) @ map (StreamToken m) (text_deltas es)
         | None \<Rightarrow>
             if text_deltas es = [] then
               msg s' = None \<and> filter message_action (shown s') = filter message_action (shown s)
             else
               (\<exists>m. msg s' = Some m \<and>
                  filter message_action (shown s') =
                    filter message_action (shown s) @
                    MessageSend m '''' # map (StreamToken m) (text_deltas es))"
  using assms
proof (induction es arbitrary: s)
  case Nil
  then show ?case by (simp split: option.split)
next
  case (Cons e es)
  from Cons.prems obtain s1 where h: "handle_event s e = Inr s1" and l: "stream_loop s1 es = (s', None)"
    by (auto split: sum.splits)
  note ih = Cons.IH [OF l]
  show ?case
  proof (cases "\<exists>delta. e = RawResponseEvent (ResponseTextDeltaEvent delta)")
    case True
    then obtain delta where e: "e = RawResponseEvent (ResponseTextDeltaEvent delta)" by blast
    show ?thesis
    proof (cases "msg s")
      case None
      with h e have s1: "s1 = s\<lparr>msg := Some (created s), created := Suc (created s),
                        shown := shown s @ [MessageSend (created s) '''', StreamToken (created s) delta]\<rparr>"
        by (simp add: handle_text_delta)
      with ih None e show ?thesis by auto
    next
      case (Some m)
      with h e have s1: "s1 = s\<lparr>shown := shown s @ [StreamToken m delta]\<rparr>"
        by (simp add: handle_text_delta)
      with ih Some e show ?thesis by auto
    qed
  next
    case False
    then have ne: "\<And>delta. e \<noteq> RawResponseEvent (ResponseTextDeltaEvent delta)" by blast
    from handle_other_event [OF h ne] text_deltas_other [OF ne, of es] ih
    show ?thesis by (auto split: option.splits)
  qed
qed

text \<open>A loop that raises has processed a prefix of the events.\<close>

lemma stream_loop_prefix:
  assumes "stream_loop s es = (s', err)"
  shows "\<exists>pre. prefix pre es \<and> stream_loop s pre = (s', None) \<and> (err = None \<longrightarrow> pre = es)"
  using assms
proof (induction es arbitrary: s)
  case Nil
  then show ?case by auto
next
  case (Cons e es)
  show ?case
  proof (cases "handle_event s e")
    case (Inl x)
    with Cons.prems have "s' = s" "err = Some x" by auto
    then have "prefix [] (e # es) \<and> stream_loop s [] = (s', None) \<and> (err = None \<longrightarrow> [] = e # es)"
      by simp
    then show ?thesis by blast
  next
    case (Inr s1)
    with Cons.prems have "stream_loop s1 es = (s', err)" by simp
    from Cons.IH [OF this] obtain pre where
      p: "prefix pre es" "stream_loop s1 pre = (s', None)" "err = None \<longrightarrow> pre = es"
      by blast
    with Inr have "prefix (e # pre) (e # es) \<and> stream_loop s (e # pre) = (s', None) \<and>
                   (err = None \<longrightarrow> e # pre = e # es)"
      by simp
    then show ?thesis by blast
  qed
qed


lemma tool_call_ids_Cons: "tool_call_ids (e # es) = tool_call_ids [e] @ tool_call_ids es"
  by (cases "(e # es)" rule: tool_call_ids.cases) (auto split: sum.splits option.splits)

lemma handle_event_tool_steps:
  assumes "handle_event s e = Inr s'"
  shows "dom (tool_steps s') = dom (tool_steps s) \<union> {c \<in> set (tool_call_ids [e]). c \<noteq> []}"
proof (cases e)
  case (RunItemStreamEvent item)
  show ?thesis
  proof (cases item)
    case (ToolCallItem raw)
    with RunItemStreamEvent assms show ?thesis
      by (auto simp: handle_event_def bind_err_def Let_def split: sum.splits option.splits if_splits)
  next
    case (ToolCallOutputItem raw out)
    with RunItemStreamEvent assms show ?thesis
      by (auto simp: handle_event_def bind_err_def split: sum.splits option.splits if_splits)
  next
    case OtherItem
    with RunItemStreamEvent assms show ?thesis
      by (simp add: handle_event_def)
  qed
next
  case (RawResponseEvent data)
  with assms show ?thesis
    by (cases data) (auto simp add: handle_event_def ensure_msg_def Let_def split: option.splits)
next
  case AgentUpdatedStreamEvent
  with assms show ?thesis
    by (simp add: handle_event_def)
qed

text \<open>The keys of \<open>tool_steps\<close> are the non-empty call ids of the tool calls seen so far.\<close>

lemma stream_loop_tool_steps:
  assumes "stream_loop s es = (s', None)"
  shows "dom (tool_steps s') = dom (tool_steps s) \<union> {c \<in> set (tool_call_ids es). c \<noteq> []}"
  using assms
proof (induction es arbitrary: s)
  case Nil
  then show ?case by simp
next
  case (Cons e es)
  from Cons.prems obtain s1 where h: "handle_event s e = Inr s1" and l: "stream_loop s1 es = (s', None)"
    by (auto split: sum.splits)
  from Cons.IH [OF l] handle_event_tool_steps [OF h] tool_call_ids_Cons [of e es]
  show ?case by auto
qed

lemma handle_output_item:
  "handle_event s (RunItemStreamEvent (ToolCallOutputItem raw out)) = Inr s' \<Longrightarrow>
     (if \<exists>c. raw_field raw ''call_id'' None = Inr (Some c) \<and> c \<in> dom (tool_steps s) \<and> c \<noteq> []
      then \<exists>step. s' = s\<lparr>shown := shown s @ [StepUpdate step out]\<rparr>
      else s' = s)"
  by (auto simp: handle_event_def bind_err_def split: sum.splits option.splits if_splits)

section \<open>Customer service demo: the streaming loop\<close>

text \<open>
  C8. The streaming loop of \<open>on_message\<close> keeps two invariants over every sequence of
  events. The state \<open>s\<close> it has reached is the state after a prefix \<open>pre\<close> of the events, all
  of them when nothing was raised. The message actions on the display are then none when
  \<open>pre\<close> holds no text delta, and otherwise one \<open>MessageSend\<close> of an empty message followed by
  one \<open>StreamToken\<close> on that same widget for every text delta: the widget is created once,
  at the first delta, and every later delta is appended to it. And a tool output event
  handled next updates a step exactly when a tool call event of \<open>pre\<close> carried the same
  non-empty call id; otherwise it is dropped and the state stays as it is.
\<close>

theorem stream_loop_invariants:
  assumes "stream_loop initial_state events = (s, err)"
  shows "\<exists>pre. prefix pre events \<and> (err = None \<longrightarrow> pre = events) \<and>
           stream_loop initial_state pre = (s, None) \<and>
           (\<exists>m. filter message_action (shown s) =
                  (if text_deltas pre = [] then []
                   else MessageSend m '''' # map (StreamToken m) (text_deltas pre))) \<and>
           (\<forall>raw out s'.
              handle_event s (RunItemStreamEvent (ToolCallOutputItem raw out)) = Inr s' \<longrightarrow>
              (if \<exists>c. raw_field raw ''call_id'' None = Inr (Some c) \<and> c \<noteq> [] \<and>
                       c \<in> set (tool_call_ids pre)
               then \<exists>step. s' = s\<lparr>shown := shown s @ [StepUpdate step out]\<rparr>
               else s' = s))"
proof -
  from stream_loop_prefix [OF assms] obtain pre where
    p: "prefix pre events" "stream_loop initial_state pre = (s, None)" "err = None \<longrightarrow> pre = events"
    by blast
  have m: "\<exists>m. filter message_action (shown s) =
                  (if text_deltas pre = [] then []
                   else MessageSend m '''' # map (StreamToken m) (text_deltas pre))"
    using stream_loop_messages [OF p(2)] by (auto simp: initial_state_def)
  have d: "dom (tool_steps s) = {c \<in> set (tool_call_ids pre). c \<noteq> []}"
    using stream_loop_tool_steps [OF p(2)] by (simp add: initial_state_def)
  have o: "\<forall>raw out s'.
              handle_event s (RunItemStreamEvent (ToolCallOutputItem raw out)) = Inr s' \<longrightarrow>
              (if \<exists>c. raw_field raw ''call_id'' None = Inr (Some c) \<and> c \<noteq> [] \<and>
                       c \<in> set (tool_call_ids pre)
               then \<exists>step. s' = s\<lparr>shown := shown s @ [StepUpdate step out]\<rparr>
               else s' = s)"
  proof (intro allI impI)
    fix raw out s'
    assume "handle_event s (RunItemStreamEvent (ToolCallOutputItem raw out)) = Inr s'"
    from handle_output_item [OF this] d
    show "if \<exists>c. raw_field raw ''call_id'' None = Inr (Some c) \<and> c \<noteq> [] \<and>
                       c \<in> set (tool_call_ids pre)
               then \<exists>step. s' = s\<lparr>shown := shown s @ [StepUpdate step out]\<rparr>
               else s' = s"
      by (auto split: if_splits)
  qed
  from p m o show ?thesis by blast
qed


text \<open>
  A run with a tool call, its output and two text deltas: one message widget, both deltas
  on it; an output for a call id that no tool call carried changes nothing.
\<close>

theorem stream_loop_invariants_witness:
  "stream_loop initial_state
     [RunItemStreamEvent (ToolCallItem (RawObject
        [''name'' \<mapsto> Some ''order_specialist'', ''call_id'' \<mapsto> Some ''call_1'',
         ''arguments'' \<mapsto> Some ''{}''])),
      RawResponseEvent (ResponseTextDeltaEvent ''Your ''),
      RunItemStreamEvent (ToolCallOutputItem (RawDict [''call_id'' \<mapsto> Some ''call_1'']) ''shipped''),
      RawResponseEvent (ResponseTextDeltaEvent ''order'')] =
     (\<lparr>tool_steps = [''call_1'' \<mapsto> 0], msg = Some 1, created = 2,
       shown = [StepSend 0 (Some ''order_specialist'') (Some ''{}''), MessageSend 1 '''',
                StreamToken 1 ''Your '', StepUpdate 0 ''shipped'', StreamToken 1 ''order'']\<rparr>, None) \<and>
   (\<exists>m. filter message_action
          [StepSend 0 (Some ''order_specialist'') (Some ''{}''), MessageSend 1 '''',
           StreamToken 1 ''Your '', StepUpdate 0 ''shipped'', StreamToken 1 ''order''] =
        MessageSend m '''' # map (StreamToken m) [''Your '', ''order'']) \<and>
   handle_event
     \<lparr>tool_steps = [''call_1'' \<mapsto> 0], msg = Some 1, created = 2,
       shown = [StepSend 0 (Some ''order_specialist'') (Some ''{}''), MessageSend 1 '''',
                StreamToken 1 ''Your '', StepUpdate 0 ''shipped'', StreamToken 1 ''order'']\<rparr>
     (RunItemStreamEvent (ToolCallOutputItem (RawDict [''call_id'' \<mapsto> Some ''call_2'']) ''late'')) =
     Inr \<lparr>tool_steps = [''call_1'' \<mapsto> 0], msg = Some 1, created = 2,
       shown = [StepSend 0 (Some ''order_specialist'') (Some ''{}''), MessageSend 1 '''',
                StreamToken 1 ''Your '', StepUpdate 0 ''shipped'', StreamToken 1 ''order'']\<rparr>"
proof -
  let ?events = "[RunItemStreamEvent (ToolCallItem (RawObject
        [''name'' \<mapsto> Some ''order_specialist'', ''call_id'' \<mapsto> Some ''call_1'',
         ''arguments'' \<mapsto> Some ''{}''])),
      RawResponseEvent (ResponseTextDeltaEvent ''Your ''),
      RunItemStreamEvent (ToolCallOutputItem (RawDict [''call_id'' \<mapsto> Some ''call_1'']) ''shipped''),
      RawResponseEvent (ResponseTextDeltaEvent ''order'')]"
  let ?s = "\<lparr>tool_steps = [''call_1'' \<mapsto> 0::nat], msg = Some (1::nat), created = 2,
       shown = [StepSend 0 (Some ''order_specialist'') (Some ''{}''), MessageSend 1 '''',
                StreamToken 1 ''Your '', StepUpdate 0 ''shipped'', StreamToken 1 ''order'']\<rparr>"
  have run: "stream_loop initial_state ?events = (?s, None)"
    by (simp add: handle_event_def raw_field_def ensure_msg_def initial_state_def Let_def)
  from stream_loop_invariants [OF run] obtain pre where
    pre: "pre = ?events"
    and m: "\<exists>m. filter message_action (shown ?s) =
                 (if text_deltas pre = [] then []
                  else MessageSend m '''' # map (StreamToken m) (text_deltas pre))"
    and o: "\<forall>raw out s'.
              handle_event ?s (RunItemStreamEvent (ToolCallOutputItem raw out)) = Inr s' \<longrightarrow>
              (if \<exists>c. raw_field raw ''call_id'' None = Inr (Some c) \<and> c \<noteq> [] \<and>
                       c \<in> set (tool_call_ids pre)
               then \<exists>step. s' = ?s\<lparr>shown := shown ?s @ [StepUpdate step out]\<rparr>
               else s' = ?s)"
    by blast
  from m have m': "\<exists>m. filter message_action
          [StepSend 0 (Some ''order_specialist'') (Some ''{}''), MessageSend 1 '''',
           StreamToken 1 ''Your '', StepUpdate 0 ''shipped'', StreamToken 1 ''order''] =
        MessageSend m '''' # map (StreamToken m) [''Your '', ''order'']"
    unfolding pre by simp
  obtain s' where h: "handle_event ?s
      (RunItemStreamEvent (ToolCallOutputItem (RawDict [''call_id'' \<mapsto> Some ''call_2'']) ''late'')) = Inr s'"
    by (simp add: handle_event_def raw_field_def)
  have ids: "tool_call_ids pre = [''call_1'']"
    unfolding pre by (simp add: raw_field_def)
  have "raw_field (RawDict [''call_id'' \<mapsto> Some ''call_2'']) ''call_id'' None = Inr (Some ''call_2'')"
    by (simp add: raw_field_def)
  with o [rule_format, OF h] ids have "s' = ?s"
    by simp
  with h run m' show ?thesis by simp
qed


section \<open>Customer service demo: the abuse guardrail\<close>

text \<open>
  C4. \<open>abuse_guardrail\<close> returns a \<open>GuardrailFunctionOutput\<close> whose \<open>tripwire_triggered\<close> is
  the \<open>is_abusive\<close> field of the \<open>AbuseCheck\<close> that the \<open>AbuseDetector\<close> run produced. When
  iterating the stream raises \<open>InputGuardrailTripwireTriggered\<close>, \<open>on_message\<close> keeps what
  the loop has already displayed for the events before the exception, sends the fixed
  apology as a new message after it, and returns. When no text delta came before the
  exception, the apology is the only message on the display.
\<close>

theorem abuse_guardrail_tripwire:
  "(\<forall>check. run_abuse_detector ctx input_data = Inr check \<longrightarrow>
      abuse_guardrail run_abuse_detector ctx agent input_data =
        Inr \<lparr>output_info = check, tripwire_triggered = is_abusive check\<rparr>) \<and>
   (\<forall>s. stream_loop initial_state events = (s, None) \<longrightarrow>
      on_message events InputGuardrailTripwireTriggered =
        (shown s @ [MessageSend (created s) apology], Returned) \<and>
      (text_deltas events = [] \<longrightarrow>
         filter message_action (fst (on_message events InputGuardrailTripwireTriggered)) =
           [MessageSend (created s) apology]))"
proof (intro conjI allI impI)
  fix check
  assume "run_abuse_detector ctx input_data = Inr check"
  then show "abuse_guardrail run_abuse_detector ctx agent input_data =
        Inr \<lparr>output_info = check, tripwire_triggered = is_abusive check\<rparr>"
    by (simp add: abuse_guardrail_def)
next
  fix s
  assume "stream_loop initial_state events = (s, None)"
  then show "on_message events InputGuardrailTripwireTriggered =
        (shown s @ [MessageSend (created s) apology], Returned)"
    by (simp add: on_message_def)
next
  fix s
  assume l: "stream_loop initial_state events = (s, None)" and t: "text_deltas events = []"
  from stream_loop_messages [OF l] t have "filter message_action (shown s) = []"
    by (simp add: initial_state_def)
  with l show "filter message_action (fst (on_message events InputGuardrailTripwireTriggered)) =
           [MessageSend (created s) apology]"
    by (simp add: on_message_def)
qed

text \<open>An abusive input flagged before the run produced anything, and one flagged after a
  tool call was displayed.\<close>

theorem abuse_guardrail_tripwire_witness:
  "abuse_guardrail (\<lambda>c i. Inr \<lparr>is_abusive = True, abuse_reason = ''threat''\<rparr> :: py_error + AbuseCheck)
       alice () ''I will find you'' =
     Inr \<lparr>output_info = \<lparr>is_abusive = True, abuse_reason = ''threat''\<rparr>, tripwire_triggered = True\<rparr> \<and>
   on_message [] InputGuardrailTripwireTriggered = ([MessageSend 0 apology], Returned) \<and>
   on_message [RunItemStreamEvent (ToolCallItem (RawDict [''call_id'' \<mapsto> Some ''call_1'']))]
       InputGuardrailTripwireTriggered =
     ([StepSend 0 (Some ''tool'') (Some ''''), MessageSend 1 apology], Returned) \<and>
   filter message_action
     (fst (on_message [RunItemStreamEvent (ToolCallItem (RawDict [''call_id'' \<mapsto> Some ''call_1'']))]
         InputGuardrailTripwireTriggered)) = [MessageSend 1 apology]"
proof -
  let ?run = "\<lambda>(c :: CustomerContext) (i :: string).
                (Inr \<lparr>is_abusive = True, abuse_reason = ''threat''\<rparr> :: py_error + AbuseCheck)"
  let ?e = "RunItemStreamEvent (ToolCallItem (RawDict [''call_id'' \<mapsto> Some ''call_1'']))"
  let ?s = "\<lparr>tool_steps = [''call_1'' \<mapsto> 0::nat], msg = None, created = 1,
             shown = [StepSend 0 (Some ''tool'') (Some '''')]\<rparr>"
  have l0: "stream_loop initial_state [] = (initial_state, None)" by simp
  have l1: "stream_loop initial_state [?e] = (?s, None)"
    by (simp add: handle_event_def raw_field_def initial_state_def Let_def)
  from abuse_guardrail_tripwire [of ?run alice "''I will find you''" "()" "[]"] l0
  have a: "abuse_guardrail ?run alice () ''I will find you'' =
             Inr \<lparr>output_info = \<lparr>is_abusive = True, abuse_reason = ''threat''\<rparr>, tripwire_triggered = True\<rparr>"
    and b: "on_message [] InputGuardrailTripwireTriggered = ([MessageSend 0 apology], Returned)"
    by (simp_all add: initial_state_def)
  from abuse_guardrail_tripwire [of ?run alice "''I will find you''" "()" "[?e]"] l1
  have c: "on_message [?e] InputGuardrailTripwireTriggered =
             ([StepSend 0 (Some ''tool'') (Some ''''), MessageSend 1 apology], Returned)"
    and d: "filter message_action (fst (on_message [?e] InputGuardrailTripwireTriggered)) =
             [MessageSend 1 apology]"
    by simp_all
  from a b c d show ?thesis by simp
qed

text \<open>
  The claim as first stated, that the apology is sent instead of any agent-generated
  response, fails when the exception arrives after a text delta: the streamed text is
  already on the display, and the apology follows it.
\<close>

theorem on_message_tripwire_counterexample:
  "on_message [RawResponseEvent (ResponseTextDeltaEvent ''Sure, let me check'')]
       InputGuardrailTripwireTriggered =
     ([MessageSend 0 '''', StreamToken 0 ''Sure, let me check'', MessageSend 1 apology], Returned)"
  by (simp add: on_message_def handle_event_def ensure_msg_def initial_state_def Let_def)





section \<open>Filesystem agent: a dry run\<close>











section \<open>Filesystem agent: classification\<close>











section \<open>Data dashboard agent: outliers by the interquartile range\<close>













end
